theory Spec2Isabelle
  imports Main "HOL-Library.Word"
begin

section \<open>The token allow-list of \<open>cmd/run.go\<close>\<close>

text \<open>
  \<open>getSupportedTokens\<close> switches on the network name and returns a Go map literal
  \<open>map[string]bool\<close>. A Go map is a finite partial function, so every table is written
  as the association list of its literal, in source order, and read through \<open>map_of\<close>.
  The two case labels \<open>optimism.MainnetNetwork\<close> and \<open>optimism.TestnetNetwork\<close> are
  string constants declared in another package; they are parameters here, tried in
  the order of the \<open>switch\<close>.
\<close>

definition opToken :: string where
  "opToken = ''0x4200000000000000000000000000000000000042''"

definition mainnetTokens :: "(string \<times> bool) list" where
  "mainnetTokens =
    [(''0x4200000000000000000000000000000000000042'', True),
     (''0xda10009cbd5d07dd0cecc66161fc93d7c9000da1'', True),
     (''0x8700daec35af8ff88c16bdf0418774cb3d7599b4'', True),
     (''0x94b008aa00579c1307b0ef2c499ad98a8ce58e58'', True),
     (''0x68f180fcce6836688e9084f035309e29bf0a2095'', True),
     (''0x7f5c764cbc14f9669b88837ca1490cca17c31607'', True)]"

definition testnetTokens :: "(string \<times> bool) list" where
  "testnetTokens =
    [(''0x4200000000000000000000000000000000000042'', True),
     (''0xda10009cbd5d07dd0cecc66161fc93d7c9000da1'', True),
     (''0x2e5ed97596a8368eb9e44b1f3f25b2e813845303'', True),
     (''0x853eb4ba5d0ba2b77a0a5329fd2110d5ce149ece'', True),
     (''0xe0a592353e81a94db6e3226fd4a99f881751776a'', True),
     (''0x7e07e15d2a87a24492740d16f5bdf58c16db0c4e'', True)]"

definition defaultTokens :: "(string \<times> bool) list" where
  "defaultTokens =
    [(''0x4200000000000000000000000000000000000042'', True)]"

definition getSupportedTokens :: "string \<Rightarrow> string \<Rightarrow> string \<Rightarrow> (string \<rightharpoonup> bool)" where
  "getSupportedTokens MainnetNetwork TestnetNetwork network =
    (if network = MainnetNetwork then map_of mainnetTokens
     else if network = TestnetNetwork then map_of testnetTokens
     else map_of defaultTokens)"

text \<open>\<open>len(m)\<close> of a Go map: the number of keys present.\<close>

definition len_map :: "(string \<rightharpoonup> bool) \<Rightarrow> nat" where
  "len_map m = card (dom m)"

section \<open>Errors, durations and the configuration\<close>

text \<open>
  A Go \<open>error\<close> is a nilable interface value: \<open>error option\<close>, \<open>None\<close> for \<open>nil\<close>.
  \<open>ErrorsNew msg\<close> is \<open>errors.New(msg)\<close>, \<open>Errorf err msg\<close> is
  \<open>fmt.Errorf("%w: msg", err)\<close> (it wraps \<open>err\<close>), \<open>ErrServerClosed\<close> is
  \<open>http.ErrServerClosed\<close>, \<open>Canceled\<close> is \<open>context.Canceled\<close>, and \<open>Failure\<close> stands
  for any other error a collaborator reports.
\<close>

datatype error =
    ErrorsNew string
  | Errorf error string
  | ErrServerClosed
  | Canceled
  | Failure string

text \<open>\<open>time.Duration\<close> is an \<open>int64\<close> count of nanoseconds.\<close>

type_synonym Duration = "64 word"

definition Second :: Duration where
  "Second = 1000000000"

definition readTimeout :: Duration where
  "readTimeout = 5 * Second"

definition idleTimeout :: Duration where
  "idleTimeout = 30 * Second"

datatype Mode = Online | Offline

text \<open>
  The fields of \<open>configuration.Configuration\<close> that \<open>runRunCmd\<close> reads. \<open>Network\<close> is
  \<open>cfg.Network.Network\<close>; \<open>cfg.Params\<close> is an opaque chain description and is left out.
\<close>

record Configuration =
  Mode :: Mode
  Network :: string
  GethURL :: string
  RemoteGeth :: bool
  Port :: int
  GethArguments :: string
  L2GethHTTPTimeout :: Duration
  MaxConcurrentTraces :: int
  EnableTraceCache :: bool
  EnableGethTracer :: bool

record ClientOptions =
  HTTPTimeout :: Duration
  MaxTraceConcurrency :: int
  OptEnableTraceCache :: bool
  OptEnableGethTracer :: bool
  SupportedTokens :: "string \<rightharpoonup> bool"

text \<open>The fields of \<open>http.Server\<close> that the literal at lines 108-114 sets, but for the handler.\<close>

record Server =
  Addr :: string
  ReadTimeout :: Duration
  WriteTimeout :: Duration
  IdleTimeout :: Duration

text \<open>\<open>fmt.Sprintf(":%d", port)\<close>: a colon and the decimal numeral of the port.\<close>

fun decimal :: "nat \<Rightarrow> string" where
  "decimal n =
    (if n < 10 then [char_of (48 + n)]
     else decimal (n div 10) @ [char_of (48 + n mod 10)])"

declare decimal.simps [simp del]

definition sprintf_port :: "int \<Rightarrow> string" where
  "sprintf_port p =
    (if p < 0 then CHR '':'' # CHR ''-'' # decimal (nat (- p))
     else CHR '':'' # decimal (nat p))"

definition newHTTPServer :: "Configuration \<Rightarrow> Server" where
  "newHTTPServer cfg =
    \<lparr>Addr = sprintf_port (Port cfg),
     ReadTimeout = readTimeout,
     WriteTimeout = L2GethHTTPTimeout cfg,
     IdleTimeout = idleTimeout\<rparr>"

section \<open>Collaborators, goroutines and the task group\<close>

text \<open>
  A call that may block for ever either \<open>Blocks\<close> or \<open>Returns\<close> its Go \<open>error\<close>.
\<close>

datatype ret = Blocks | Returns "error option"

text \<open>
  The goroutines of the \<open>errgroup.Group\<close> \<open>g\<close>: the three closures \<open>runRunCmd\<close> hands to
  \<open>g.Go\<close> (each with what it captures), and the goroutines \<open>optimism.StartGeth\<close>, which
  receives \<open>g\<close>, may add to the group on its own.
\<close>

datatype task =
    GethTask string
  | GethChild nat
  | ServeTask Server
  | ShutdownTask Server

text \<open>
  What \<open>runRunCmd\<close> does to the outside, in program order: \<open>go handleSignals(...)\<close>, each
  \<open>g.Go\<close>, the call of \<open>optimism.NewClient\<close> with the error it returned, the deferred
  \<open>client.Close()\<close>, and \<open>g.Wait()\<close>.
\<close>

datatype event =
    HandleSignals
  | Go task
  | NewClientCall "error option"
  | ClientClose
  | WaitCalled

text \<open>
  A \<open>context.Context\<close>, by what its methods answer: \<open>Deadline()\<close> (a point in time, if one
  is set) and \<open>Err()\<close> (\<open>nil\<close> until the context is done). \<open>context.Background()\<close> has no
  deadline and is never done. \<open>context.WithCancel\<close> and \<open>errgroup.WithContext\<close> derive a
  child that inherits the parent's deadline and state, and the child's cancel function
  makes it done with \<open>context.Canceled\<close>, once.
\<close>

record Context =
  Deadline :: "nat option"
  Err :: "error option"

definition Background :: Context where
  "Background = \<lparr>Deadline = None, Err = None\<rparr>"

definition WithCancel :: "Context \<Rightarrow> Context" where
  "WithCancel parent = \<lparr>Deadline = Deadline parent, Err = Err parent\<rparr>"

definition WithContext :: "Context \<Rightarrow> Context" where
  "WithContext parent = \<lparr>Deadline = Deadline parent, Err = Err parent\<rparr>"

definition cancel :: "Context \<Rightarrow> Context" where
  "cancel ctx = (if Err ctx = None then ctx\<lparr>Err := Some Canceled\<rparr> else ctx)"

text \<open>Lines 75-79: the context \<open>ctx\<close> that the closures capture.\<close>

definition groupCtx :: Context where
  "groupCtx = WithContext (WithCancel Background)"

text \<open>
  Lines 125-127: \<open>ctx\<close> as the shutdown closure hands it to \<open>server.Shutdown\<close>, after
  \<open>ctx.Done()\<close> has fired. Nothing but a cancellation makes this context done.
\<close>

definition shutdownCtx :: Context where
  "shutdownCtx = cancel groupCtx"



text \<open>
  Everything \<open>runRunCmd\<close> gets from code outside \<open>cmd/run.go\<close> is a field of the
  environment of a run: the two network-name constants, the results of
  \<open>configuration.LoadConfiguration\<close>, \<open>asserter.NewServer\<close> and \<open>optimism.NewClient\<close>
  (the error only: the asserter and the client are opaque handles), what
  \<open>optimism.StartGeth\<close>, \<open>server.ListenAndServe\<close> and \<open>server.Shutdown\<close> (given its
  context) return, the goroutines \<open>StartGeth\<close> adds to the group (by what they return),
  the order in which goroutines finish (a rank), and whether a termination signal
  arrives while the group runs.
\<close>

record env =
  MainnetNetwork :: string
  TestnetNetwork :: string
  LoadConfiguration :: "error + Configuration"
  NewServer :: "string \<Rightarrow> error option"
  NewClient :: "string \<Rightarrow> ClientOptions \<Rightarrow> error option"
  StartGeth :: "string \<Rightarrow> ret"
  StartGethGo :: "ret list"
  ListenAndServe :: "Server \<Rightarrow> ret"
  Shutdown :: "Server \<Rightarrow> Context \<Rightarrow> ret"
  finished :: "task \<Rightarrow> nat"
  signalled :: bool

text \<open>
  Modelled from the spec: the global \<open>SignalReceived\<close> and \<open>handleSignals\<close>, which sets it,
  are not in \<open>cmd/run.go\<close>. The flag is false at process start and becomes true if and
  only if a termination signal was received; once true it stays true. This is its value
  when line 131 reads it.
\<close>

definition SignalReceived :: "env \<Rightarrow> bool" where
  "SignalReceived e = signalled e"

fun tasksOf :: "event list \<Rightarrow> task list" where
  "tasksOf [] = []"
| "tasksOf (Go t # evs) = t # tasksOf evs"
| "tasksOf (ev # evs) = tasksOf evs"

fun isGeth :: "task \<Rightarrow> bool" where
  "isGeth (GethTask args) = True"
| "isGeth t = False"

text \<open>The group when \<open>g.Wait()\<close> is called: what \<open>runRunCmd\<close> registered, and \<open>StartGeth\<close>'s own.\<close>

definition goroutines :: "env \<Rightarrow> event list \<Rightarrow> task list" where
  "goroutines e evs =
    tasksOf evs @
    (if list_ex isGeth (tasksOf evs) then map GethChild [0 ..< length (StartGethGo e)] else [])"

text \<open>The blocking call at the heart of each goroutine.\<close>

fun call :: "env \<Rightarrow> task \<Rightarrow> ret" where
  "call e (GethTask args) = StartGeth e args"
| "call e (GethChild i) = (if i < length (StartGethGo e) then StartGethGo e ! i else Blocks)"
| "call e (ServeTask s) = ListenAndServe e s"
| "call e (ShutdownTask s) = Shutdown e s shutdownCtx"

fun failed :: "ret \<Rightarrow> bool" where
  "failed (Returns (Some err)) = True"
| "failed r = False"

fun isShutdown :: "task \<Rightarrow> bool" where
  "isShutdown (ShutdownTask s) = True"
| "isShutdown t = False"

text \<open>
  Modelled from the spec: \<open>handleSignals\<close> and the cancellation of the group's context
  are not in \<open>cmd/run.go\<close>. The signal watcher converts a termination signal into a
  cancellation trigger and records it in the flag; on any task error the shared scope is
  cancelled. So the context \<open>ctx\<close> is done during the run when a signal was received or a
  goroutine other than the one waiting for it returned an error.
\<close>

definition cancelled :: "env \<Rightarrow> task list \<Rightarrow> bool" where
  "cancelled e g =
    (SignalReceived e \<or> list_ex (\<lambda>t. \<not> isShutdown t \<and> failed (call e t)) g)"

text \<open>
  What each goroutine returns to the group. The embedded-node closure returns
  \<open>optimism.StartGeth(ctx, cfg.GethArguments, g)\<close>, the serve closure returns
  \<open>server.ListenAndServe()\<close>, and the shutdown closure first blocks on \<open>ctx.Done()\<close> and then
  returns \<open>server.Shutdown(ctx)\<close>, with the context that is done by then.
\<close>

fun run :: "env \<Rightarrow> task list \<Rightarrow> task \<Rightarrow> ret" where
  "run e g (ShutdownTask s) = (if cancelled e g then Shutdown e s shutdownCtx else Blocks)"
| "run e g t = call e t"

fun firstError :: "ret list \<Rightarrow> error option" where
  "firstError [] = None"
| "firstError (Returns (Some err) # rs) = Some err"
| "firstError (r # rs) = firstError rs"

text \<open>
  Modelled from the spec: \<open>errgroup\<close>'s \<open>Wait\<close> is not in \<open>cmd/run.go\<close>. Join blocks until
  every task has returned and yields the first error encountered, in the order in which
  the tasks complete; a task that never returns prevents join from returning.
\<close>

definition Wait :: "env \<Rightarrow> task list \<Rightarrow> ret" where
  "Wait e g =
    (if list_ex (\<lambda>t. run e g t = Blocks) g then Blocks
     else Returns (firstError (map (run e g) (sort_key (finished e) g))))"

section \<open>The supervisor \<open>runRunCmd\<close>\<close>

definition halted :: error where
  "halted = ErrorsNew ''rosetta-ethereum halted''"

definition clientOptions :: "env \<Rightarrow> Configuration \<Rightarrow> ClientOptions" where
  "clientOptions e cfg =
    \<lparr>HTTPTimeout = L2GethHTTPTimeout cfg,
     MaxTraceConcurrency = MaxConcurrentTraces cfg,
     OptEnableTraceCache = EnableTraceCache cfg,
     OptEnableGethTracer = EnableGethTracer cfg,
     SupportedTokens = getSupportedTokens (MainnetNetwork e) (TestnetNetwork e) (Network cfg)\<rparr>"

text \<open>
  Lines 104-135: build the server, register the serve and the shutdown closure, join the
  group and decide the outcome. \<open>evs\<close> is what the function has done so far.
\<close>

definition serveAndWait :: "env \<Rightarrow> Configuration \<Rightarrow> event list \<Rightarrow> ret \<times> event list" where
  "serveAndWait e cfg evs =
    (let server = newHTTPServer cfg;
         evs' = evs @ [Go (ServeTask server), Go (ShutdownTask server), WaitCalled]
     in case Wait e (goroutines e evs') of
          Blocks \<Rightarrow> (Blocks, evs')
        | Returns err \<Rightarrow>
            (if SignalReceived e then (Returns (Some halted), evs')
             else (Returns err, evs')))"

text \<open>A deferred call runs when the function returns, and not if it never does.\<close>

fun deferred :: "event \<Rightarrow> ret \<times> event list \<Rightarrow> ret \<times> event list" where
  "deferred ev (Blocks, evs) = (Blocks, evs)"
| "deferred ev (Returns err, evs) = (Returns err, evs @ [ev])"

text \<open>
  Lines 54-102, then the rest. The result is what the function returns (if it does) and
  what it did, in order.
\<close>

definition runRunCmd :: "env \<Rightarrow> ret \<times> event list" where
  "runRunCmd e =
    (case LoadConfiguration e of
       Inl err \<Rightarrow> (Returns (Some (Errorf err ''unable to load configuration'')), [])
     | Inr cfg \<Rightarrow>
        (case NewServer e (Network cfg) of
           Some err \<Rightarrow> (Returns (Some (Errorf err ''could not initialize server asserter'')), [])
         | None \<Rightarrow>
            (let evs = [HandleSignals] in
             if Mode cfg = Online then
               (let evs1 = (if \<not> RemoteGeth cfg then evs @ [Go (GethTask (GethArguments cfg))] else evs);
                    opts = clientOptions e cfg;
                    r = NewClient e (GethURL cfg) opts;
                    evs2 = evs1 @ [NewClientCall r]
                in case r of
                     Some err \<Rightarrow> (Returns (Some (Errorf err ''cannot initialize ethereum client'')), evs2)
                   | None \<Rightarrow> deferred ClientClose (serveAndWait e cfg evs2))
             else serveAndWait e cfg evs)))"

text \<open>
  What lines 77-87 have done in online mode when \<open>optimism.NewClient\<close> is called: the
  signal watcher runs, and the embedded node is launched unless \<open>cfg.RemoteGeth\<close>.
\<close>

definition starting :: "Configuration \<Rightarrow> event list" where
  "starting cfg =
     (if RemoteGeth cfg then [HandleSignals] else [HandleSignals, Go (GethTask (GethArguments cfg))])"

section \<open>Sample runs\<close>

text \<open>
  An offline configuration, and a run of it that an operator stops with a signal: the
  shutdown closure closes the server, \<open>Shutdown\<close> returns \<open>nil\<close>, and \<open>ListenAndServe\<close>
  returns \<open>http.ErrServerClosed\<close>, as \<open>net/http\<close> documents it does after \<open>Shutdown\<close>
  (it never returns \<open>nil\<close>).
\<close>

definition exampleCfg :: Configuration where
  "exampleCfg =
    \<lparr>Mode = Offline, Network = ''Mainnet'', GethURL = ''http://127.0.0.1:8545'',
     RemoteGeth = False, Port = 8080, GethArguments = ''--dev'',
     L2GethHTTPTimeout = 120 * Second, MaxConcurrentTraces = 4,
     EnableTraceCache = False, EnableGethTracer = False\<rparr>"

definition haltEnv :: env where
  "haltEnv =
    \<lparr>MainnetNetwork = ''Mainnet'', TestnetNetwork = ''Testnet'',
     LoadConfiguration = Inr exampleCfg,
     NewServer = (\<lambda>n. None),
     NewClient = (\<lambda>url opts. None),
     StartGeth = (\<lambda>args. Blocks),
     StartGethGo = [],
     ListenAndServe = (\<lambda>s. Returns (Some ErrServerClosed)),
     Shutdown = (\<lambda>s ctx. Returns None),
     finished = (\<lambda>t. 0),
     signalled = True\<rparr>"

text \<open>The same run in online mode against a remote geth.\<close>

definition remoteCfg :: Configuration where
  "remoteCfg = exampleCfg\<lparr>Mode := Online, RemoteGeth := True\<rparr>"

definition remoteEnv :: env where
  "remoteEnv = haltEnv\<lparr>LoadConfiguration := Inr remoteCfg\<rparr>"

text \<open>An online run with an embedded node in which the client cannot be built.\<close>

definition embeddedCfg :: Configuration where
  "embeddedCfg = exampleCfg\<lparr>Mode := Online\<rparr>"

definition clientFailEnv :: env where
  "clientFailEnv =
    haltEnv\<lparr>LoadConfiguration := Inr embeddedCfg,
            NewClient := (\<lambda>url opts. Some (Failure ''dial failed'')),
            signalled := False\<rparr>"

text \<open>Runs in which the configuration cannot be loaded, or the asserter cannot be built.\<close>

definition configFailEnv :: env where
  "configFailEnv = haltEnv\<lparr>LoadConfiguration := Inl (Failure ''no mode''), signalled := False\<rparr>"

definition asserterFailEnv :: env where
  "asserterFailEnv =
    haltEnv\<lparr>NewServer := (\<lambda>n. Some (Failure ''no network'')), signalled := False\<rparr>"




section \<open>Facts about the token tables\<close>

lemma mainnetTokens_distinct: "distinct (map fst mainnetTokens)"
  by (simp add: mainnetTokens_def)

lemma testnetTokens_distinct: "distinct (map fst testnetTokens)"
  by (simp add: testnetTokens_def)

lemma len_map_of: "distinct (map fst xs) \<Longrightarrow> len_map (map_of xs) = length xs"
  by (simp add: len_map_def dom_map_of_conv_image_fst distinct_card flip: set_map)

lemma len_mainnet: "len_map (map_of mainnetTokens) = 6"
  using len_map_of [OF mainnetTokens_distinct] by (simp add: mainnetTokens_def)

lemma len_testnet: "len_map (map_of testnetTokens) = 6"
  using len_map_of [OF testnetTokens_distinct] by (simp add: testnetTokens_def)

lemma len_default: "len_map (map_of defaultTokens) = 1"
  by (simp add: len_map_def defaultTokens_def)

lemma dom_default: "dom (map_of defaultTokens) = {opToken}"
  by (simp add: defaultTokens_def opToken_def)

lemma op_mainnet: "map_of mainnetTokens opToken = Some True"
  by (simp add: mainnetTokens_def opToken_def)

lemma op_testnet: "map_of testnetTokens opToken = Some True"
  by (simp add: testnetTokens_def opToken_def)

lemma op_default: "map_of defaultTokens opToken = Some True"
  by (simp add: defaultTokens_def opToken_def)

lemma ran_all_true: "snd ` set xs = {True} \<Longrightarrow> distinct (map fst xs) \<Longrightarrow> ran (map_of xs) = {True}"
  by (simp add: ran_distinct)

section \<open>Facts about the task group and the supervisor\<close>

lemma tasksOf_append: "tasksOf (xs @ ys) = tasksOf xs @ tasksOf ys"
  by (induction xs rule: tasksOf.induct) simp_all


lemma snd_serveAndWait:
  "snd (serveAndWait e cfg evs) =
     evs @ [Go (ServeTask (newHTTPServer cfg)), Go (ShutdownTask (newHTTPServer cfg)), WaitCalled]"
  by (simp add: serveAndWait_def Let_def split: ret.splits)

lemma fst_serveAndWait:
  "fst (serveAndWait e cfg evs) =
     (case Wait e (goroutines e (snd (serveAndWait e cfg evs))) of
        Blocks \<Rightarrow> Blocks
      | Returns err \<Rightarrow> Returns (if SignalReceived e then Some halted else err))"
  by (simp add: serveAndWait_def Let_def split: ret.splits)

lemma fst_deferred: "fst (deferred ev p) = fst p"
  by (cases "(ev, p)" rule: deferred.cases) simp_all

lemma snd_deferred:
  "snd (deferred ev p) = (case fst p of Blocks \<Rightarrow> snd p | Returns err \<Rightarrow> snd p @ [ev])"
  by (cases "(ev, p)" rule: deferred.cases) simp_all

lemma runRunCmd_config_fail:
  "LoadConfiguration e = Inl err \<Longrightarrow>
   runRunCmd e = (Returns (Some (Errorf err ''unable to load configuration'')), [])"
  by (simp add: runRunCmd_def)

lemma runRunCmd_asserter_fail:
  "LoadConfiguration e = Inr cfg \<Longrightarrow> NewServer e (Network cfg) = Some err \<Longrightarrow>
   runRunCmd e = (Returns (Some (Errorf err ''could not initialize server asserter'')), [])"
  by (simp add: runRunCmd_def)

lemma runRunCmd_client_fail:
  "LoadConfiguration e = Inr cfg \<Longrightarrow> NewServer e (Network cfg) = None \<Longrightarrow> Mode cfg = Online \<Longrightarrow>
   NewClient e (GethURL cfg) (clientOptions e cfg) = Some err \<Longrightarrow>
   runRunCmd e = (Returns (Some (Errorf err ''cannot initialize ethereum client'')),
                  starting cfg @ [NewClientCall (Some err)])"
  by (simp add: runRunCmd_def starting_def Let_def)

lemma runRunCmd_online:
  "LoadConfiguration e = Inr cfg \<Longrightarrow> NewServer e (Network cfg) = None \<Longrightarrow> Mode cfg = Online \<Longrightarrow>
   NewClient e (GethURL cfg) (clientOptions e cfg) = None \<Longrightarrow>
   runRunCmd e = deferred ClientClose (serveAndWait e cfg (starting cfg @ [NewClientCall None]))"
  by (simp add: runRunCmd_def starting_def Let_def)

lemma runRunCmd_offline:
  "LoadConfiguration e = Inr cfg \<Longrightarrow> NewServer e (Network cfg) = None \<Longrightarrow> Mode cfg = Offline \<Longrightarrow>
   runRunCmd e = serveAndWait e cfg [HandleSignals]"
  by (simp add: runRunCmd_def Let_def)

text \<open>The five ways through the function.\<close>

lemma runRunCmd_cases:
  obtains (config) err where "LoadConfiguration e = Inl err"
  | (asserter) cfg err where "LoadConfiguration e = Inr cfg" "NewServer e (Network cfg) = Some err"
  | (client) cfg err where "LoadConfiguration e = Inr cfg" "NewServer e (Network cfg) = None"
      "Mode cfg = Online" "NewClient e (GethURL cfg) (clientOptions e cfg) = Some err"
  | (online) cfg where "LoadConfiguration e = Inr cfg" "NewServer e (Network cfg) = None"
      "Mode cfg = Online" "NewClient e (GethURL cfg) (clientOptions e cfg) = None"
  | (offline) cfg where "LoadConfiguration e = Inr cfg" "NewServer e (Network cfg) = None"
      "Mode cfg = Offline"
proof (cases "LoadConfiguration e")
  case (Inl err)
  then show ?thesis by (rule config)
next
  case (Inr cfg)
  show ?thesis
  proof (cases "NewServer e (Network cfg)")
    case (Some err)
    with Inr show ?thesis by (rule asserter)
  next
    case None
    show ?thesis
    proof (cases "Mode cfg")
      case Online
      show ?thesis
      proof (cases "NewClient e (GethURL cfg) (clientOptions e cfg)")
        case (Some err)
        with Inr None Online show ?thesis by (intro client)
      next
        case N: None
        with Inr None Online show ?thesis by (intro online)
      qed
    next
      case Offline
      with Inr None show ?thesis by (rule offline)
    qed
  qed
qed

lemma firstError_None_iff: "firstError rs = None \<longleftrightarrow> (\<forall>r\<in>set rs. \<not> failed r)"
  by (induction rs rule: firstError.induct) simp_all

lemma not_failed_iff: "\<not> failed r \<and> r \<noteq> Blocks \<longleftrightarrow> r = Returns None"
  by (cases r rule: failed.cases) simp_all

lemma Wait_Returns:
  "Wait e g = Returns r \<longleftrightarrow>
     (\<forall>t\<in>set g. run e g t \<noteq> Blocks) \<and> firstError (map (run e g) (sort_key (finished e) g)) = r"
  by (auto simp: Wait_def list_ex_iff)

lemma Wait_nil_iff: "Wait e g = Returns None \<longleftrightarrow> (\<forall>t\<in>set g. run e g t = Returns None)"
proof -
  have "Wait e g = Returns None \<longleftrightarrow>
      (\<forall>t\<in>set g. run e g t \<noteq> Blocks) \<and> (\<forall>t\<in>set g. \<not> failed (run e g t))"
    by (auto simp: Wait_Returns firstError_None_iff)
  also have "\<dots> \<longleftrightarrow> (\<forall>t\<in>set g. run e g t = Returns None)"
    using not_failed_iff by blast
  finally show ?thesis .
qed

lemma Wait_error:
  assumes "t \<in> set g" and "run e g t = Returns (Some err)" and "Wait e g = Returns r"
  shows "r \<noteq> None"
proof
  assume "r = None"
  with assms(3) have "Wait e g = Returns None" by simp
  then have "run e g t = Returns None" using assms(1) by (simp add: Wait_nil_iff)
  with assms(2) show False by simp
qed

section \<open>The sample runs, evaluated\<close>

lemmas run_defs =
  runRunCmd_def serveAndWait_def Wait_def goroutines_def cancelled_def SignalReceived_def Let_def

lemma haltEnv_run:
  "runRunCmd haltEnv =
    (Returns (Some halted),
     [HandleSignals, Go (ServeTask (newHTTPServer exampleCfg)),
      Go (ShutdownTask (newHTTPServer exampleCfg)), WaitCalled])"
  by (simp add: run_defs haltEnv_def exampleCfg_def)

lemma haltEnv_join:
  "Wait haltEnv [ServeTask s, ShutdownTask s] = Returns (Some ErrServerClosed)"
  by (simp add: run_defs haltEnv_def)






lemma remoteEnv_run:
  "runRunCmd remoteEnv =
    (Returns (Some halted),
     [HandleSignals, NewClientCall None, Go (ServeTask (newHTTPServer remoteCfg)),
      Go (ShutdownTask (newHTTPServer remoteCfg)), WaitCalled, ClientClose])"
  by (simp add: run_defs remoteEnv_def haltEnv_def remoteCfg_def exampleCfg_def)

lemma clientFailEnv_run:
  "runRunCmd clientFailEnv =
    (Returns (Some (Errorf (Failure ''dial failed'') ''cannot initialize ethereum client'')),
     [HandleSignals, Go (GethTask ''--dev''), NewClientCall (Some (Failure ''dial failed''))])"
  by (simp add: run_defs clientFailEnv_def haltEnv_def embeddedCfg_def exampleCfg_def)

section \<open>The claims\<close>






text \<open>
  Claim C3, as amended. In offline mode, when a termination signal arrives and the serve
  and the shutdown call return, the group holds exactly the serve and the shutdown
  closure and no client is built, the join returns, the signal flag is true, and
  \<open>runRunCmd\<close> returns \<open>halted\<close>. The join returns \<open>nil\<close> exactly when both
  \<open>ListenAndServe\<close> and \<open>Shutdown\<close> return \<open>nil\<close>. The claim as written promises that the
  join returns \<open>nil\<close>: it does not in the run \<open>haltEnv\<close>, where the serve closure hands
  \<open>http.ErrServerClosed\<close> to the group.
\<close>

theorem offline_signal_halts:
  assumes cfg: "LoadConfiguration e = Inr cfg" "NewServer e (Network cfg) = None"
    and off: "Mode cfg = Offline" and sig: "signalled e"
    and serve: "ListenAndServe e (newHTTPServer cfg) = Returns a"
    and shut: "Shutdown e (newHTTPServer cfg) shutdownCtx = Returns b"
  shows "goroutines e (snd (runRunCmd e)) =
           [ServeTask (newHTTPServer cfg), ShutdownTask (newHTTPServer cfg)]
       \<and> (\<forall>r. NewClientCall r \<notin> set (snd (runRunCmd e)))
       \<and> (\<exists>r. Wait e (goroutines e (snd (runRunCmd e))) = Returns r)
       \<and> (Wait e (goroutines e (snd (runRunCmd e))) = Returns None \<longleftrightarrow> a = None \<and> b = None)
       \<and> SignalReceived e
       \<and> fst (runRunCmd e) = Returns (Some halted)"
proof -
  let ?s = "newHTTPServer cfg"
  let ?g = "[ServeTask ?s, ShutdownTask ?s]"
  have run: "runRunCmd e = serveAndWait e cfg [HandleSignals]"
    using cfg off by (rule runRunCmd_offline)
  have g: "goroutines e (snd (runRunCmd e)) = ?g"
    by (simp add: run snd_serveAndWait goroutines_def)
  have flag: "SignalReceived e"
    using sig by (simp add: SignalReceived_def)
  then have c: "cancelled e ?g"
    by (simp add: cancelled_def)
  have tasks: "run e ?g (ServeTask ?s) = Returns a" "run e ?g (ShutdownTask ?s) = Returns b"
    using serve shut c by simp_all
  then have join: "\<exists>r. Wait e ?g = Returns r"
    by (simp add: Wait_def)
  have nil: "Wait e ?g = Returns None \<longleftrightarrow> a = None \<and> b = None"
    using tasks by (simp add: Wait_nil_iff)
  have "\<forall>r. NewClientCall r \<notin> set (snd (runRunCmd e))"
    by (simp add: run snd_serveAndWait)
  moreover have "fst (runRunCmd e) = Returns (Some halted)"
    using join flag g by (auto simp: fst_serveAndWait run)
  ultimately show ?thesis using g join nil flag by simp
qed

theorem offline_signal_halts_witness:
  "LoadConfiguration haltEnv = Inr exampleCfg \<and> NewServer haltEnv (Network exampleCfg) = None
 \<and> Mode exampleCfg = Offline \<and> signalled haltEnv
 \<and> ListenAndServe haltEnv (newHTTPServer exampleCfg) = Returns (Some ErrServerClosed)
 \<and> Shutdown haltEnv (newHTTPServer exampleCfg) shutdownCtx = Returns None
 \<and> goroutines haltEnv (snd (runRunCmd haltEnv)) =
      [ServeTask (newHTTPServer exampleCfg), ShutdownTask (newHTTPServer exampleCfg)]
 \<and> (\<exists>r. Wait haltEnv (goroutines haltEnv (snd (runRunCmd haltEnv))) = Returns r)
 \<and> SignalReceived haltEnv
 \<and> fst (runRunCmd haltEnv) = Returns (Some halted)"
proof -
  have h: "LoadConfiguration haltEnv = Inr exampleCfg"
    "NewServer haltEnv (Network exampleCfg) = None"
    "Mode exampleCfg = Offline" "signalled haltEnv"
    "ListenAndServe haltEnv (newHTTPServer exampleCfg) = Returns (Some ErrServerClosed)"
    "Shutdown haltEnv (newHTTPServer exampleCfg) shutdownCtx = Returns None"
    by (simp_all add: haltEnv_def exampleCfg_def)
  from offline_signal_halts [OF h] h show ?thesis
    by blast
qed

theorem offline_join_nil_counterexample:
  "LoadConfiguration haltEnv = Inr exampleCfg \<and> Mode exampleCfg = Offline
 \<and> SignalReceived haltEnv
 \<and> Wait haltEnv (goroutines haltEnv (snd (runRunCmd haltEnv))) \<noteq> Returns None"
  by (simp add: haltEnv_run goroutines_def haltEnv_join)
    (simp add: SignalReceived_def haltEnv_def exampleCfg_def)

text \<open>
  Claim C4, as amended. The serve closure returns to the group exactly what
  \<open>server.ListenAndServe()\<close> returns, with no filter: an error it returns, the
  \<open>http.ErrServerClosed\<close> that follows the paired shutdown included, is an error of the
  group, and a join that returns then returns a non-nil error. The claim as written
  says the serve task contributes no error when the shutdown task closes the server.
\<close>

theorem serve_task_unfiltered:
  "run e g (ServeTask s) = ListenAndServe e s \<and>
   (ServeTask s \<in> set g \<and> ListenAndServe e s = Returns (Some err) \<and> Wait e g = Returns r
      \<longrightarrow> r \<noteq> None)"
  using Wait_error [of "ServeTask s" g e err r] by simp

theorem serve_task_unfiltered_witness:
  "ServeTask (newHTTPServer exampleCfg) \<in> set (goroutines haltEnv (snd (runRunCmd haltEnv)))
 \<and> ListenAndServe haltEnv (newHTTPServer exampleCfg) = Returns (Some ErrServerClosed)
 \<and> Wait haltEnv (goroutines haltEnv (snd (runRunCmd haltEnv))) = Returns (Some ErrServerClosed)
 \<and> run haltEnv (goroutines haltEnv (snd (runRunCmd haltEnv))) (ServeTask (newHTTPServer exampleCfg)) =
      Returns (Some ErrServerClosed)
 \<and> Some ErrServerClosed \<noteq> None"
proof -
  let ?g = "goroutines haltEnv (snd (runRunCmd haltEnv))"
  let ?s = "newHTTPServer exampleCfg"
  have m: "ServeTask ?s \<in> set ?g"
    by (simp add: haltEnv_run goroutines_def)
  have l: "ListenAndServe haltEnv ?s = Returns (Some ErrServerClosed)"
    by (simp add: haltEnv_def)
  have j: "Wait haltEnv ?g = Returns (Some ErrServerClosed)"
    by (simp add: haltEnv_run goroutines_def haltEnv_join)
  from serve_task_unfiltered [of haltEnv ?g ?s ErrServerClosed "Some ErrServerClosed"] m l j
  show ?thesis by simp
qed

theorem serve_task_counterexample:
  "run haltEnv (goroutines haltEnv (snd (runRunCmd haltEnv))) (ShutdownTask (newHTTPServer exampleCfg)) =
      Returns None
 \<and> run haltEnv (goroutines haltEnv (snd (runRunCmd haltEnv))) (ServeTask (newHTTPServer exampleCfg)) =
      Returns (Some ErrServerClosed)"
  by (simp add: haltEnv_run goroutines_def cancelled_def)
    (simp add: SignalReceived_def haltEnv_def)

text \<open>
  Claim C5, as amended. When loading the configuration or building the asserter fails,
  \<open>runRunCmd\<close> returns that error (wrapped) having done nothing: no task is registered.
  When building the client fails, it returns that error (wrapped) before the join, and
  the group is empty if the configuration points at a remote geth; otherwise the
  embedded-node task, registered at line 84 before the client is built, is already in
  the group. The claim as written says that no task is registered in any of the three
  cases.
\<close>

theorem fatal_construction_errors:
  "(LoadConfiguration e = Inl err \<longrightarrow>
      runRunCmd e = (Returns (Some (Errorf err ''unable to load configuration'')), []))
 \<and> (LoadConfiguration e = Inr cfg \<and> NewServer e (Network cfg) = Some err \<longrightarrow>
      runRunCmd e = (Returns (Some (Errorf err ''could not initialize server asserter'')), []))
 \<and> (LoadConfiguration e = Inr cfg \<and> NewServer e (Network cfg) = None \<and> Mode cfg = Online \<and>
    NewClient e (GethURL cfg) (clientOptions e cfg) = Some err \<longrightarrow>
      fst (runRunCmd e) = Returns (Some (Errorf err ''cannot initialize ethereum client'')) \<and>
      WaitCalled \<notin> set (snd (runRunCmd e)) \<and>
      tasksOf (snd (runRunCmd e)) =
        (if RemoteGeth cfg then [] else [GethTask (GethArguments cfg)]))"
  by (simp add: runRunCmd_config_fail runRunCmd_asserter_fail runRunCmd_client_fail
      starting_def tasksOf_append)

theorem fatal_construction_errors_witness:
  "LoadConfiguration configFailEnv = Inl (Failure ''no mode'')
 \<and> runRunCmd configFailEnv =
      (Returns (Some (Errorf (Failure ''no mode'') ''unable to load configuration'')), [])
 \<and> LoadConfiguration asserterFailEnv = Inr exampleCfg
 \<and> NewServer asserterFailEnv (Network exampleCfg) = Some (Failure ''no network'')
 \<and> runRunCmd asserterFailEnv =
      (Returns (Some (Errorf (Failure ''no network'') ''could not initialize server asserter'')), [])
 \<and> LoadConfiguration clientFailEnv = Inr embeddedCfg
 \<and> NewServer clientFailEnv (Network embeddedCfg) = None \<and> Mode embeddedCfg = Online
 \<and> NewClient clientFailEnv (GethURL embeddedCfg) (clientOptions clientFailEnv embeddedCfg) =
      Some (Failure ''dial failed'')
 \<and> tasksOf (snd (runRunCmd clientFailEnv)) = [GethTask ''--dev'']"
proof -
  have a: "LoadConfiguration configFailEnv = Inl (Failure ''no mode'')"
    by (simp add: configFailEnv_def)
  have b: "LoadConfiguration asserterFailEnv = Inr exampleCfg"
    "NewServer asserterFailEnv (Network exampleCfg) = Some (Failure ''no network'')"
    by (simp_all add: asserterFailEnv_def haltEnv_def)
  have c: "LoadConfiguration clientFailEnv = Inr embeddedCfg"
    "NewServer clientFailEnv (Network embeddedCfg) = None" "Mode embeddedCfg = Online"
    "NewClient clientFailEnv (GethURL embeddedCfg) (clientOptions clientFailEnv embeddedCfg) =
       Some (Failure ''dial failed'')"
    by (simp_all add: clientFailEnv_def haltEnv_def embeddedCfg_def exampleCfg_def)
  have d: "\<not> RemoteGeth embeddedCfg" "GethArguments embeddedCfg = ''--dev''"
    by (simp_all add: embeddedCfg_def exampleCfg_def)
  from fatal_construction_errors [of configFailEnv "Failure ''no mode''"]
    fatal_construction_errors [of asserterFailEnv "Failure ''no network''" exampleCfg]
    fatal_construction_errors [of clientFailEnv "Failure ''dial failed''" embeddedCfg]
    a b c d
  show ?thesis by simp
qed

theorem fatal_construction_errors_counterexample:
  "LoadConfiguration clientFailEnv = Inr embeddedCfg
 \<and> NewClient clientFailEnv (GethURL embeddedCfg) (clientOptions clientFailEnv embeddedCfg) =
      Some (Failure ''dial failed'')
 \<and> fst (runRunCmd clientFailEnv) =
      Returns (Some (Errorf (Failure ''dial failed'') ''cannot initialize ethereum client''))
 \<and> tasksOf (snd (runRunCmd clientFailEnv)) \<noteq> []"
  by (simp add: clientFailEnv_run) (simp add: clientFailEnv_def haltEnv_def)

text \<open>
  Claim C6. In every run in which \<open>runRunCmd\<close> returns: if \<open>optimism.NewClient\<close> was called
  and succeeded, \<open>client.Close()\<close> is invoked exactly once, as the last thing the function
  does; if no client was created, it is never invoked.
\<close>

theorem client_closed_once:
  assumes "fst (runRunCmd e) = Returns r"
  shows "length (filter (\<lambda>ev. ev = ClientClose) (snd (runRunCmd e))) =
           (if NewClientCall None \<in> set (snd (runRunCmd e)) then 1 else 0)
       \<and> (NewClientCall None \<in> set (snd (runRunCmd e)) \<longrightarrow> last (snd (runRunCmd e)) = ClientClose)"
proof (cases e rule: runRunCmd_cases)
  case (config err)
  then show ?thesis by (simp add: runRunCmd_config_fail)
next
  case (asserter cfg err)
  then show ?thesis by (simp add: runRunCmd_asserter_fail)
next
  case (client cfg err)
  then show ?thesis by (simp add: runRunCmd_client_fail starting_def)
next
  case (online cfg)
  let ?p = "serveAndWait e cfg (starting cfg @ [NewClientCall None])"
  have run: "runRunCmd e = deferred ClientClose ?p"
    using online by (rule runRunCmd_online)
  with assms have "fst ?p = Returns r" by (simp add: fst_deferred)
  then have "snd (runRunCmd e) = snd ?p @ [ClientClose]"
    by (simp add: run snd_deferred)
  then show ?thesis by (simp add: snd_serveAndWait starting_def)
next
  case (offline cfg)
  then have "runRunCmd e = serveAndWait e cfg [HandleSignals]"
    by (rule runRunCmd_offline)
  then show ?thesis by (simp add: snd_serveAndWait)
qed

theorem client_closed_once_witness:
  "fst (runRunCmd remoteEnv) = Returns (Some halted)
 \<and> NewClientCall None \<in> set (snd (runRunCmd remoteEnv))
 \<and> length (filter (\<lambda>ev. ev = ClientClose) (snd (runRunCmd remoteEnv))) = 1
 \<and> fst (runRunCmd haltEnv) = Returns (Some halted)
 \<and> NewClientCall None \<notin> set (snd (runRunCmd haltEnv))
 \<and> length (filter (\<lambda>ev. ev = ClientClose) (snd (runRunCmd haltEnv))) = 0"
proof -
  have a: "fst (runRunCmd remoteEnv) = Returns (Some halted)"
    by (simp add: remoteEnv_run)
  have b: "fst (runRunCmd haltEnv) = Returns (Some halted)"
    by (simp add: haltEnv_run)
  have c: "NewClientCall None \<in> set (snd (runRunCmd remoteEnv))"
    by (simp add: remoteEnv_run)
  have d: "NewClientCall None \<notin> set (snd (runRunCmd haltEnv))"
    by (simp add: haltEnv_run)
  from client_closed_once [OF a] client_closed_once [OF b] a b c d
  show ?thesis by simp
qed

text \<open>
  Claim C7. With the production network's name, \<open>getSupportedTokens\<close> returns a table of
  exactly 6 entries, the native token's address among them; with a name that is neither
  the production nor the test network's, it returns a table of exactly 1 entry, that
  address.
\<close>

theorem getSupportedTokens_sizes:
  "len_map (getSupportedTokens mn tn mn) = 6
 \<and> getSupportedTokens mn tn mn opToken = Some True
 \<and> (n \<noteq> mn \<and> n \<noteq> tn \<longrightarrow>
      len_map (getSupportedTokens mn tn n) = 1 \<and> dom (getSupportedTokens mn tn n) = {opToken})"
  by (simp add: getSupportedTokens_def len_mainnet op_mainnet len_default dom_default)

theorem getSupportedTokens_sizes_witness:
  "''Devnet'' \<noteq> ''Mainnet'' \<and> ''Devnet'' \<noteq> ''Testnet''
 \<and> len_map (getSupportedTokens ''Mainnet'' ''Testnet'' ''Mainnet'') = 6
 \<and> len_map (getSupportedTokens ''Mainnet'' ''Testnet'' ''Devnet'') = 1
 \<and> dom (getSupportedTokens ''Mainnet'' ''Testnet'' ''Devnet'') = {opToken}"
  using getSupportedTokens_sizes [of "''Mainnet''" "''Testnet''" "''Devnet''"] by simp

text \<open>
  Claim C8, as amended. Once the configuration is loaded and the asserter built, the
  embedded-node task is registered exactly when the configuration is in online mode and
  not pointed at a remote geth, and \<open>optimism.NewClient\<close> is called exactly when the
  configuration is in online mode, remote geth or not; in offline mode neither happens.
  The claim as written also makes the client depend on the remote-geth flag.
\<close>

theorem starting_phase:
  assumes "LoadConfiguration e = Inr cfg" and "NewServer e (Network cfg) = None"
  shows "((\<exists>args. Go (GethTask args) \<in> set (snd (runRunCmd e))) \<longleftrightarrow>
            Mode cfg = Online \<and> \<not> RemoteGeth cfg)
       \<and> ((\<exists>r. NewClientCall r \<in> set (snd (runRunCmd e))) \<longleftrightarrow> Mode cfg = Online)"
proof (cases "Mode cfg")
  case Offline
  with assms have "runRunCmd e = serveAndWait e cfg [HandleSignals]"
    by (rule runRunCmd_offline)
  with Offline show ?thesis by (simp add: snd_serveAndWait)
next
  case Online
  show ?thesis
  proof (cases "NewClient e (GethURL cfg) (clientOptions e cfg)")
    case (Some err)
    with assms Online
    have "snd (runRunCmd e) = starting cfg @ [NewClientCall (Some err)]"
      by (simp add: runRunCmd_client_fail)
    with Online show ?thesis by (simp add: starting_def)
  next
    case None
    with assms Online
    have "runRunCmd e = deferred ClientClose (serveAndWait e cfg (starting cfg @ [NewClientCall None]))"
      by (rule runRunCmd_online)
    with Online show ?thesis
      by (auto simp: snd_deferred snd_serveAndWait starting_def split: ret.splits)
  qed
qed

theorem starting_phase_witness:
  "LoadConfiguration remoteEnv = Inr remoteCfg \<and> NewServer remoteEnv (Network remoteCfg) = None
 \<and> Mode remoteCfg = Online \<and> RemoteGeth remoteCfg
 \<and> (\<exists>r. NewClientCall r \<in> set (snd (runRunCmd remoteEnv)))
 \<and> \<not> (\<exists>args. Go (GethTask args) \<in> set (snd (runRunCmd remoteEnv)))"
proof -
  have h: "LoadConfiguration remoteEnv = Inr remoteCfg"
    "NewServer remoteEnv (Network remoteCfg) = None"
    by (simp_all add: remoteEnv_def haltEnv_def)
  have m: "Mode remoteCfg = Online" "RemoteGeth remoteCfg"
    by (simp_all add: remoteCfg_def)
  from starting_phase [OF h] h m show ?thesis by simp
qed

theorem client_remote_geth_counterexample:
  "LoadConfiguration remoteEnv = Inr remoteCfg
 \<and> \<not> (Mode remoteCfg = Online \<and> \<not> RemoteGeth remoteCfg)
 \<and> NewClientCall None \<in> set (snd (runRunCmd remoteEnv))"
  by (simp add: remoteEnv_run) (simp add: remoteEnv_def remoteCfg_def)

text \<open>
  Claim C9. The server that the serve and the shutdown closure work on has a read timeout
  of 5 seconds, an idle timeout of 30 seconds, and as write timeout the configured
  \<open>L2GethHTTPTimeout\<close>.
\<close>

theorem server_timeouts:
  assumes "LoadConfiguration e = Inr cfg"
    and "Go (ServeTask s) \<in> set (snd (runRunCmd e)) \<or> Go (ShutdownTask s) \<in> set (snd (runRunCmd e))"
  shows "ReadTimeout s = 5 * Second \<and> sint (ReadTimeout s) = 5000000000
       \<and> IdleTimeout s = 30 * Second \<and> sint (IdleTimeout s) = 30000000000
       \<and> WriteTimeout s = L2GethHTTPTimeout cfg"
proof -
  have "s = newHTTPServer cfg"
  proof (cases e rule: runRunCmd_cases)
    case (config err)
    with assms show ?thesis by simp
  next
    case (asserter cfg' err)
    with assms show ?thesis by (simp add: runRunCmd_asserter_fail)
  next
    case (client cfg' err)
    with assms show ?thesis by (auto simp: runRunCmd_client_fail starting_def split: if_splits)
  next
    case (online cfg')
    with assms(1) have "runRunCmd e = deferred ClientClose (serveAndWait e cfg (starting cfg @ [NewClientCall None]))"
      by (simp add: runRunCmd_online)
    with assms(2) show ?thesis
      by (auto simp: snd_deferred snd_serveAndWait starting_def split: ret.splits if_splits)
  next
    case (offline cfg')
    with assms(1) have "runRunCmd e = serveAndWait e cfg [HandleSignals]"
      by (simp add: runRunCmd_offline)
    with assms(2) show ?thesis by (auto simp: snd_serveAndWait)
  qed
  then show ?thesis
    by (simp add: newHTTPServer_def readTimeout_def idleTimeout_def Second_def)
qed

theorem server_timeouts_witness:
  "LoadConfiguration haltEnv = Inr exampleCfg
 \<and> Go (ServeTask (newHTTPServer exampleCfg)) \<in> set (snd (runRunCmd haltEnv))
 \<and> sint (ReadTimeout (newHTTPServer exampleCfg)) = 5000000000
 \<and> sint (IdleTimeout (newHTTPServer exampleCfg)) = 30000000000
 \<and> WriteTimeout (newHTTPServer exampleCfg) = 120 * Second"
proof -
  have a: "LoadConfiguration haltEnv = Inr exampleCfg"
    by (simp add: haltEnv_def)
  have b: "Go (ServeTask (newHTTPServer exampleCfg)) \<in> set (snd (runRunCmd haltEnv))"
    by (simp add: haltEnv_run)
  then have "Go (ServeTask (newHTTPServer exampleCfg)) \<in> set (snd (runRunCmd haltEnv))
      \<or> Go (ShutdownTask (newHTTPServer exampleCfg)) \<in> set (snd (runRunCmd haltEnv))" ..
  moreover have "L2GethHTTPTimeout exampleCfg = 120 * Second"
    by (simp add: exampleCfg_def)
  ultimately show ?thesis
    using server_timeouts [of haltEnv exampleCfg "newHTTPServer exampleCfg"] a b
    by (simp add: Second_def)
qed

text \<open>
  Claim C10. For every network name, and whatever the two recognised names are, the table
  \<open>getSupportedTokens\<close> returns holds the native token's address, maps no address to
  \<open>false\<close>, and has \<open>true\<close> as its only value.
\<close>

theorem getSupportedTokens_all_true:
  "getSupportedTokens mn tn n opToken = Some True
 \<and> getSupportedTokens mn tn n a \<noteq> Some False
 \<and> ran (getSupportedTokens mn tn n) = {True}"
proof -
  have r: "ran (getSupportedTokens mn tn n) = {True}"
    by (simp add: getSupportedTokens_def ran_all_true mainnetTokens_distinct testnetTokens_distinct)
      (simp add: mainnetTokens_def testnetTokens_def defaultTokens_def ran_all_true)
  then have "getSupportedTokens mn tn n a \<noteq> Some False"
    by (auto simp: ran_def)
  with r show ?thesis
    by (simp add: getSupportedTokens_def op_mainnet op_testnet op_default)
qed

end
